theory Spec2Isabelle
  imports Complex_Main
begin

section \<open>VisionSense: the frame-sampling and feature-extraction pipeline\<close>

text \<open>
  A shallow embedding of \<^verbatim>\<open>video_features/extractor.py\<close>, of the exception mapping of
  the \<^verbatim>\<open>/extract\<close> endpoint in \<^verbatim>\<open>app.py\<close> and of \<^verbatim>\<open>_merge\<close> in
  \<^verbatim>\<open>video_features/cli.py\<close>.

  Conventions of the embedding:
  \<^item> Python integers are \<open>int\<close>; Python floats are idealised as \<open>real\<close> (rounding, NaN and
    infinities are not modelled).
  \<^item> An exception is a value: a call returns \<open>error + 'a\<close>, with \<open>Inl\<close> the exception.
  \<^item> OpenCV, Tesseract and the YOLO detector are parameters of the model. A frame, a
    histogram and a grayscale image are values of the type variables \<open>'f\<close>, \<open>'h\<close> and
    \<open>'g\<close>. Each backend call is a function of its arguments (a deterministic backend)
    that returns a value or raises a fault.
  \<^item> The exceptions of the backends (\<^verbatim>\<open>cv2.error\<close>, \<^verbatim>\<open>TesseractError\<close>, ...) are kept
    apart, as \<open>BackendError\<close>, from the three built-in exceptions that the code of
    \<^verbatim>\<open>extract_features\<close> raises itself.
\<close>

subsection \<open>Exceptions\<close>

type_synonym fault = string

datatype error =
    FileNotFoundError
  | ValueError
  | ZeroDivisionError
  | BackendError fault

definition and_then :: "error + 'a \<Rightarrow> ('a \<Rightarrow> error + 'b) \<Rightarrow> error + 'b" where
  "and_then m k = (case m of Inl e \<Rightarrow> Inl e | Inr x \<Rightarrow> k x)"

definition backend :: "fault + 'a \<Rightarrow> error + 'a" where
  "backend r = (case r of Inl x \<Rightarrow> Inl (BackendError x) | Inr v \<Rightarrow> Inr v)"

text \<open>Python's \<^verbatim>\<open>a % b\<close> on integers: the result has the sign of \<open>b\<close>, as \<open>mod\<close> on \<open>int\<close>
  has; a zero divisor raises, where HOL's \<open>a mod 0\<close> is \<open>a\<close>.\<close>

definition py_mod :: "int \<Rightarrow> int \<Rightarrow> error + int" where
  "py_mod a b = (if b = 0 then Inl ZeroDivisionError else Inr (a mod b))"

text \<open>\<^verbatim>\<open>int(x)\<close> on a float truncates towards zero; \<^verbatim>\<open>x or d\<close> is \<open>d\<close> when \<open>x\<close> is zero.\<close>

definition py_int :: "real \<Rightarrow> int" where
  "py_int x = (if 0 \<le> x then \<lfloor>x\<rfloor> else \<lceil>x\<rceil>)"

definition py_or :: "real \<Rightarrow> real \<Rightarrow> real" where
  "py_or x d = (if x = 0 then d else x)"

subsection \<open>Configuration (frozen dataclasses)\<close>

record FarnebackParams =
  pyr_scale :: real
  levels :: int
  winsize :: int
  iterations :: int
  poly_n :: int
  poly_sigma :: real
  flags :: int

record HistogramParams =
  bins :: "int \<times> int \<times> int"
  ranges :: "int \<times> int \<times> int \<times> int \<times> int \<times> int"

record FeatureExtractionConfig =
  frame_stride :: int
  resize_width :: int
  shot_threshold :: real
  text_sample_stride :: int
  text_min_chars :: int
  yolo_model :: string
  yolo_frame_stride :: int
  farneback :: FarnebackParams
  hist :: HistogramParams

definition default_FarnebackParams :: FarnebackParams where
  "default_FarnebackParams =
     \<lparr>pyr_scale = 0.5, levels = 3, winsize = 15, iterations = 3, poly_n = 5,
      poly_sigma = 1.2, flags = 0\<rparr>"

definition default_HistogramParams :: HistogramParams where
  "default_HistogramParams = \<lparr>bins = (8, 8, 8), ranges = (0, 180, 0, 256, 0, 256)\<rparr>"

definition default_FeatureExtractionConfig :: FeatureExtractionConfig where
  "default_FeatureExtractionConfig =
     \<lparr>frame_stride = 5, resize_width = 640, shot_threshold = 0.45,
      text_sample_stride = 10, text_min_chars = 8, yolo_model = ''yolov8n.pt'',
      yolo_frame_stride = 15, farneback = default_FarnebackParams,
      hist = default_HistogramParams\<rparr>"

text \<open>The command line (\<^verbatim>\<open>cli.py\<close>): every override is optional, and \<^verbatim>\<open>_merge\<close> builds
  the configuration from the overrides and the base, with no check of the values.\<close>

record Namespace =
  arg_frame_stride :: "int option"
  arg_resize_width :: "int option"
  arg_shot_threshold :: "real option"
  arg_text_sample_stride :: "int option"
  arg_text_min_chars :: "int option"
  arg_yolo_frame_stride :: "int option"
  arg_yolo_model :: "string option"

definition or_base :: "'a option \<Rightarrow> 'a \<Rightarrow> 'a" where
  "or_base a b = (case a of Some v \<Rightarrow> v | None \<Rightarrow> b)"

definition merge :: "FeatureExtractionConfig \<Rightarrow> Namespace \<Rightarrow> FeatureExtractionConfig" where
  "merge base args =
     \<lparr>frame_stride = or_base (arg_frame_stride args) (frame_stride base),
      resize_width = or_base (arg_resize_width args) (resize_width base),
      shot_threshold = or_base (arg_shot_threshold args) (shot_threshold base),
      text_sample_stride = or_base (arg_text_sample_stride args) (text_sample_stride base),
      text_min_chars = or_base (arg_text_min_chars args) (text_min_chars base),
      yolo_model = or_base (arg_yolo_model args) (yolo_model base),
      yolo_frame_stride = or_base (arg_yolo_frame_stride args) (yolo_frame_stride base),
      farneback = farneback base,
      hist = hist base\<rparr>"

subsection \<open>The backends\<close>

text \<open>What the detector returns for one frame. An attribute that may be missing
  (\<^verbatim>\<open>getattr\<close> with a default, \<^verbatim>\<open>hasattr\<close>) is an option, \<open>None\<close> for the missing
  attribute; an attribute whose value may be Python's \<^verbatim>\<open>None\<close> is an option again.
  \<open>cls\<close> holds the class ids, as \<^verbatim>\<open>classes.int().tolist()\<close> lists them.\<close>

type_synonym names = "int \<rightharpoonup> string"

record Boxes =
  cls :: "int list option"

record Results =
  result_names :: "names option option"
  boxes :: "Boxes option option"

record 'f YOLO =
  predict :: "'f \<Rightarrow> fault + Results"
  model_names :: "names option option"

text \<open>The image operations: the private methods of the extractor that only wrap
  OpenCV and Tesseract calls, with the part of the configuration each one reads.\<close>

record ('f, 'h, 'g) backends =
  resize_to_width :: "'f \<Rightarrow> int \<Rightarrow> fault + 'f"
  hsv_histogram :: "HistogramParams \<Rightarrow> 'f \<Rightarrow> fault + 'h"
  bhattacharyya :: "'h \<Rightarrow> 'h \<Rightarrow> fault + real"
  cvtColor_BGR2GRAY :: "'f \<Rightarrow> fault + 'g"
  avg_optical_flow_magnitude :: "FarnebackParams \<Rightarrow> 'g \<Rightarrow> 'g \<Rightarrow> fault + real"
  contains_text :: "'f \<Rightarrow> int \<Rightarrow> fault + bool"

record 'f VideoFeatureExtractor =
  config :: FeatureExtractionConfig
  detector :: "'f YOLO"

definition VideoFeatureExtractor_init ::
  "(string \<Rightarrow> error + 'f YOLO) \<Rightarrow> FeatureExtractionConfig \<Rightarrow> error + 'f VideoFeatureExtractor" where
  "VideoFeatureExtractor_init load cfg =
     and_then (load (yolo_model cfg)) (\<lambda>d. Inr \<lparr>config = cfg, detector = d\<rparr>)"

subsection \<open>Files and decode handles\<close>

text \<open>A file that exists is described by what the decoder makes of it: whether the
  container opens, the two properties read from the handle, and the outcome of each
  successive \<^verbatim>\<open>cap.read()\<close>, a frame or a fault raised in the middle of the stream. After
  the last element \<^verbatim>\<open>read\<close> reports the end of the stream. The world holds the files, the
  resolution of paths and every handle created so far.\<close>

record 'f video =
  openable :: bool
  CAP_PROP_FPS :: real
  CAP_PROP_FRAME_COUNT :: real
  decoded :: "(fault + 'f) list"

record VideoCapture =
  source :: string
  isOpened :: bool
  released :: bool

record 'f world =
  files :: "string \<rightharpoonup> 'f video"
  resolve :: "string \<Rightarrow> string"
  handles :: "VideoCapture list"

subsection \<open>Counting detections\<close>

definition dict_or_empty :: "names option \<Rightarrow> names" where
  "dict_or_empty v = (case v of None \<Rightarrow> Map.empty | Some m \<Rightarrow> m)"

definition getattr_names :: "Results \<Rightarrow> 'f YOLO \<Rightarrow> names" where
  "getattr_names result det =
     dict_or_empty
       (case result_names result of
          Some v \<Rightarrow> v
        | None \<Rightarrow> (case model_names det of Some v \<Rightarrow> v | None \<Rightarrow> Some Map.empty))"

fun count_labels :: "names \<Rightarrow> int list \<Rightarrow> int \<times> int \<Rightarrow> int \<times> int" where
  "count_labels nm [] (people, others) = (people, others)"
| "count_labels nm (cls_id # rest) (people, others) =
     (let label = (case nm cls_id of None \<Rightarrow> '''' | Some l \<Rightarrow> l)
      in if label = ''person''
         then count_labels nm rest (people + 1, others)
         else count_labels nm rest (people, others + 1))"

definition count_result :: "'f YOLO \<Rightarrow> Results \<Rightarrow> int \<times> int" where
  "count_result det result =
     (let nm = getattr_names result det in
      case boxes result of
        None \<Rightarrow> (0, 0)
      | Some None \<Rightarrow> (0, 0)
      | Some (Some b) \<Rightarrow>
          (case cls b of
             None \<Rightarrow> (0, 0)
           | Some classes \<Rightarrow> count_labels nm classes (0, 0)))"

definition count_people_vs_objects :: "'f YOLO \<Rightarrow> 'f \<Rightarrow> error + int \<times> int" where
  "count_people_vs_objects det frame_bgr =
     and_then (backend (predict det frame_bgr)) (\<lambda>result. Inr (count_result det result))"

subsection \<open>The sampling loop\<close>

record ('h, 'g) locals =
  absolute_frame_index :: int
  processed_frames :: int
  hard_cuts :: int
  text_samples :: int
  text_positives :: int
  motion_samples :: int
  motion_magnitude_sum :: real
  person_total :: int
  object_total :: int
  prev_hist :: "'h option"
  prev_gray :: "'g option"

definition initial_locals :: "('h, 'g) locals" where
  "initial_locals =
     \<lparr>absolute_frame_index = - 1, processed_frames = 0, hard_cuts = 0, text_samples = 0,
      text_positives = 0, motion_samples = 0, motion_magnitude_sum = 0, person_total = 0,
      object_total = 0, prev_hist = None, prev_gray = None\<rparr>"

text \<open>Lines 87 to 92: the histogram of the frame, compared with the previous one.\<close>

definition shot_step ::
  "FeatureExtractionConfig \<Rightarrow> ('f, 'h, 'g) backends \<Rightarrow> 'f \<Rightarrow> ('h, 'g) locals
     \<Rightarrow> error + ('h, 'g) locals" where
  "shot_step cfg cv frame_small st =
     and_then (backend (hsv_histogram cv (hist cfg) frame_small)) (\<lambda>curr_hist.
     and_then
       (case prev_hist st of
          None \<Rightarrow> Inr st
        | Some ph \<Rightarrow>
            and_then (backend (bhattacharyya cv ph curr_hist)) (\<lambda>color_distance.
              Inr (if color_distance > shot_threshold cfg
                   then st\<lparr>hard_cuts := hard_cuts st + 1\<rparr> else st)))
       (\<lambda>st. Inr (st\<lparr>prev_hist := Some curr_hist\<rparr>)))"

text \<open>Lines 94 to 99: the optical flow against the previous grayscale frame.\<close>

definition motion_step ::
  "FeatureExtractionConfig \<Rightarrow> ('f, 'h, 'g) backends \<Rightarrow> 'f \<Rightarrow> ('h, 'g) locals
     \<Rightarrow> error + ('h, 'g) locals" where
  "motion_step cfg cv frame_small st =
     and_then (backend (cvtColor_BGR2GRAY cv frame_small)) (\<lambda>curr_gray.
     and_then
       (case prev_gray st of
          None \<Rightarrow> Inr st
        | Some pg \<Rightarrow>
            and_then (backend (avg_optical_flow_magnitude cv (farneback cfg) pg curr_gray))
              (\<lambda>avg_mag.
                Inr (st\<lparr>motion_magnitude_sum := motion_magnitude_sum st + avg_mag,
                        motion_samples := motion_samples st + 1\<rparr>)))
       (\<lambda>st. Inr (st\<lparr>prev_gray := Some curr_gray\<rparr>)))"

text \<open>Lines 101 to 104: the text sample, on the count of accepted frames.\<close>

definition text_step ::
  "FeatureExtractionConfig \<Rightarrow> ('f, 'h, 'g) backends \<Rightarrow> 'f \<Rightarrow> ('h, 'g) locals
     \<Rightarrow> error + ('h, 'g) locals" where
  "text_step cfg cv frame_small st =
     and_then (py_mod (processed_frames st) (text_sample_stride cfg)) (\<lambda>m.
       if m = 0 then
         (let st = st\<lparr>text_samples := text_samples st + 1\<rparr> in
          and_then (backend (contains_text cv frame_small (text_min_chars cfg))) (\<lambda>positive.
            Inr (if positive then st\<lparr>text_positives := text_positives st + 1\<rparr> else st)))
       else Inr st)"

text \<open>Lines 106 to 109: the detections, on the count of accepted frames.\<close>

definition detection_step ::
  "FeatureExtractionConfig \<Rightarrow> 'f YOLO \<Rightarrow> 'f \<Rightarrow> ('h, 'g) locals \<Rightarrow> error + ('h, 'g) locals" where
  "detection_step cfg det frame_small st =
     and_then (py_mod (processed_frames st) (yolo_frame_stride cfg)) (\<lambda>m.
       if m = 0 then
         and_then (count_people_vs_objects det frame_small) (\<lambda>(persons, objects).
           Inr (st\<lparr>person_total := person_total st + persons,
                   object_total := object_total st + objects\<rparr>))
       else Inr st)"

text \<open>Lines 84 to 109: the body of the loop for an accepted frame.\<close>

definition process_frame ::
  "'f VideoFeatureExtractor \<Rightarrow> ('f, 'h, 'g) backends \<Rightarrow> ('h, 'g) locals \<Rightarrow> 'f
     \<Rightarrow> error + ('h, 'g) locals" where
  "process_frame self cv st frame_bgr =
     (let cfg = config self;
          st = st\<lparr>processed_frames := processed_frames st + 1\<rparr>
      in and_then (backend (resize_to_width cv frame_bgr (resize_width cfg))) (\<lambda>frame_small.
         and_then (shot_step cfg cv frame_small st) (\<lambda>st.
         and_then (motion_step cfg cv frame_small st) (\<lambda>st.
         and_then (text_step cfg cv frame_small st) (\<lambda>st.
         detection_step cfg (detector self) frame_small st)))))"

text \<open>Lines 75 to 109: \<^verbatim>\<open>while True\<close> over the outcomes of \<^verbatim>\<open>cap.read()\<close>. The empty list
  is the end of the stream (\<^verbatim>\<open>ok\<close> is false, \<^verbatim>\<open>break\<close>); a fault of the decoder leaves
  the loop as an exception; a frame whose index is not a multiple of the stride is
  skipped (\<^verbatim>\<open>continue\<close>).\<close>

fun loop ::
  "'f VideoFeatureExtractor \<Rightarrow> ('f, 'h, 'g) backends \<Rightarrow> (fault + 'f) list \<Rightarrow> ('h, 'g) locals
     \<Rightarrow> error + ('h, 'g) locals" where
  "loop self cv [] st = Inr st"
| "loop self cv (Inl x # rest) st = Inl (BackendError x)"
| "loop self cv (Inr frame_bgr # rest) st =
     (let st = st\<lparr>absolute_frame_index := absolute_frame_index st + 1\<rparr> in
      and_then (py_mod (absolute_frame_index st) (frame_stride (config self))) (\<lambda>m.
        if m \<noteq> 0 then loop self cv rest st
        else and_then (process_frame self cv st frame_bgr) (\<lambda>st. loop self cv rest st)))"

subsection \<open>The report\<close>

record report =
  video_path :: string
  duration_seconds :: "real option"
  frames_total :: int
  frames_processed :: int
  report_hard_cuts :: int
  avg_motion_magnitude :: real
  text_present_ratio :: real
  people_detections :: int
  object_detections :: int
  person_to_object_ratio :: "real option"

text \<open>Lines 113 to 128. The field \<open>report_hard_cuts\<close> is the key \<^verbatim>\<open>"hard_cuts"\<close> of the
  dictionary, renamed apart from the local variable.\<close>

definition make_report :: "string \<Rightarrow> real option \<Rightarrow> int \<Rightarrow> ('h, 'g) locals \<Rightarrow> report" where
  "make_report resolved_path duration total_frames st =
     (let avg_motion = (if motion_samples st \<noteq> 0
                        then motion_magnitude_sum st / of_int (motion_samples st) else 0);
          text_ratio = (if text_samples st \<noteq> 0
                        then of_int (text_positives st) / of_int (text_samples st) else 0);
          person_object_ratio = (if object_total st \<noteq> 0
                        then Some (of_int (person_total st) / of_int (object_total st))
                        else None)
      in \<lparr>video_path = resolved_path,
          duration_seconds = duration,
          frames_total = total_frames,
          frames_processed = processed_frames st,
          report_hard_cuts = hard_cuts st,
          avg_motion_magnitude = avg_motion,
          text_present_ratio = text_ratio,
          people_detections = person_total st,
          object_detections = object_total st,
          person_to_object_ratio = person_object_ratio\<rparr>)"

subsection \<open>extract_features\<close>

text \<open>Lines 48 to 128. The handle created by \<^verbatim>\<open>cv2.VideoCapture\<close> is added to the
  world; \<^verbatim>\<open>try ... finally: cap.release()\<close> releases it whatever the loop returns or
  raises. A handle that did not open is left as it is.\<close>

definition extract_features ::
  "'f VideoFeatureExtractor \<Rightarrow> ('f, 'h, 'g) backends \<Rightarrow> 'f world \<Rightarrow> string
     \<Rightarrow> (error + report) \<times> 'f world" where
  "extract_features self cv w path =
     (case files w path of
        None \<Rightarrow> (Inl FileNotFoundError, w)
      | Some v \<Rightarrow>
          (let cap = \<lparr>source = path, isOpened = openable v, released = False\<rparr> in
           if \<not> isOpened cap then (Inl ValueError, w\<lparr>handles := handles w @ [cap]\<rparr>)
           else
             (let fps = py_or (CAP_PROP_FPS v) 0;
                  total_frames = py_int (py_or (CAP_PROP_FRAME_COUNT v) 0);
                  duration = (if fps > 0 then Some (of_int total_frames / fps) else None);
                  outcome = loop self cv (decoded v) (initial_locals :: ('h, 'g) locals);
                  w = w\<lparr>handles := handles w @ [cap\<lparr>released := True\<rparr>]\<rparr>
              in (and_then outcome (\<lambda>st.
                    Inr (make_report (resolve w path) duration total_frames st)), w))))"

subsection \<open>The endpoint\<close>

text \<open>Lines 135 to 147 of \<^verbatim>\<open>app.py\<close>: the extractor is built and run on the temporary
  file; \<^verbatim>\<open>FileNotFoundError\<close> becomes status 400, any other exception status 500; the
  temporary file is unlinked on every path. (\<open>extract\<close> is a keyword of Isabelle, so
  the function is named \<open>extract_endpoint\<close>.)\<close>

datatype HTTPException = HTTPException int string

datatype JSONResponse = JSONResponse report int

definition extract_endpoint ::
  "(string \<Rightarrow> error + 'f YOLO) \<Rightarrow> FeatureExtractionConfig \<Rightarrow> ('f, 'h, 'g) backends \<Rightarrow> 'f world
     \<Rightarrow> string \<Rightarrow> (HTTPException + JSONResponse) \<times> 'f world" where
  "extract_endpoint load cfg cv w temp_path =
     (let (outcome, w) =
            (case VideoFeatureExtractor_init load cfg of
               Inl e \<Rightarrow> (Inl e, w)
             | Inr extractor \<Rightarrow> extract_features extractor cv w temp_path);
          w = w\<lparr>files := (files w)(temp_path := None)\<rparr>
      in case outcome of
           Inl FileNotFoundError \<Rightarrow>
             (Inl (HTTPException 400 ''Failed to read uploaded video file.''), w)
         | Inl _ \<Rightarrow> (Inl (HTTPException 500 ''Video processing failed.''), w)
         | Inr features \<Rightarrow> (Inr (JSONResponse features 200), w))"

subsection \<open>The sampling policy, as the design states it\<close>

text \<open>The frames the policy accepts: those whose index, counted from 0, is a multiple
  of the stride. \<open>accepted_from\<close> is the same selection, written by recursion from a
  starting index. \<open>run_accepted\<close> runs the body of the loop on a list of frames, one
  after the other, until one of them raises.\<close>

fun run_accepted ::
  "'f VideoFeatureExtractor \<Rightarrow> ('f, 'h, 'g) backends \<Rightarrow> 'f list \<Rightarrow> ('h, 'g) locals
     \<Rightarrow> error + ('h, 'g) locals" where
  "run_accepted self cv [] st = Inr st"
| "run_accepted self cv (f # fs) st =
     and_then (process_frame self cv st f) (\<lambda>st. run_accepted self cv fs st)"

definition accepted_frames :: "int \<Rightarrow> 'f list \<Rightarrow> 'f list" where
  "accepted_frames stride frames =
     map (\<lambda>i. frames ! i) (filter (\<lambda>i. int i mod stride = 0) [0..<length frames])"

fun accepted_from :: "int \<Rightarrow> int \<Rightarrow> 'f list \<Rightarrow> 'f list" where
  "accepted_from stride i [] = []"
| "accepted_from stride i (f # fs) =
     (if i mod stride = 0 then f # accepted_from stride (i + 1) fs
      else accepted_from stride (i + 1) fs)"

subsection \<open>A small video and stand-ins for the backends\<close>

text \<open>Frames, histograms and grayscale images are numbers here. The text detector
  faults on frame 13; the detector finds a person, a car and an object of a class the
  names do not list.\<close>

definition demo_backends :: "(nat, nat, nat) backends" where
  "demo_backends =
     \<lparr>resize_to_width = (\<lambda>f w. Inr f),
      hsv_histogram = (\<lambda>p f. Inr f),
      bhattacharyya = (\<lambda>a b. Inr (if a = b then 0 else 1)),
      cvtColor_BGR2GRAY = (\<lambda>f. Inr f),
      avg_optical_flow_magnitude = (\<lambda>p a b. Inr 2),
      contains_text = (\<lambda>f n. if f = 13 then Inl ''tesseract'' else Inr (even f))\<rparr>"

definition demo_result :: Results where
  "demo_result = \<lparr>result_names = None, boxes = Some (Some \<lparr>cls = Some [0, 1, 7]\<rparr>)\<rparr>"

definition demo_detector :: "nat YOLO" where
  "demo_detector =
     \<lparr>predict = (\<lambda>f. Inr demo_result),
      model_names = Some (Some [0 \<mapsto> ''person'', 1 \<mapsto> ''car''])\<rparr>"

definition demo_config :: FeatureExtractionConfig where
  "demo_config =
     default_FeatureExtractionConfig
       \<lparr>frame_stride := 2, text_sample_stride := 2, yolo_frame_stride := 3\<rparr>"

definition demo_extractor :: "nat VideoFeatureExtractor" where
  "demo_extractor = \<lparr>config = demo_config, detector = demo_detector\<rparr>"

definition demo_video :: "nat video" where
  "demo_video =
     \<lparr>openable = True, CAP_PROP_FPS = 25, CAP_PROP_FRAME_COUNT = 7,
      decoded = map Inr [1, 2, 3, 4, 5, 6, 7]\<rparr>"

definition empty_video :: "nat video" where
  "empty_video =
     \<lparr>openable = True, CAP_PROP_FPS = 0, CAP_PROP_FRAME_COUNT = 0, decoded = []\<rparr>"

definition broken_video :: "nat video" where
  "broken_video =
     \<lparr>openable = True, CAP_PROP_FPS = 25, CAP_PROP_FRAME_COUNT = 9,
      decoded = [Inr 1, Inr 2, Inl ''decode'']\<rparr>"

definition text_file :: "nat video" where
  "text_file =
     \<lparr>openable = False, CAP_PROP_FPS = 0, CAP_PROP_FRAME_COUNT = 0, decoded = []\<rparr>"

definition demo_world :: "nat world" where
  "demo_world =
     \<lparr>files = [''a.mp4'' \<mapsto> demo_video, ''empty.mp4'' \<mapsto> empty_video,
               ''broken.mp4'' \<mapsto> broken_video, ''notes.mp4'' \<mapsto> text_file],
      resolve = (\<lambda>p. ''/data/'' @ p),
      handles = []\<rparr>"

section \<open>Properties\<close>

subsection \<open>Sequencing, modulo and the steps of the loop\<close>

lemma and_then_Inl [simp]: "and_then (Inl e) k = Inl e" by (simp add: and_then_def)
lemma and_then_Inr [simp]: "and_then (Inr x) k = k x" by (simp add: and_then_def)
lemma and_then_eq_Inr: "and_then m k = Inr y \<longleftrightarrow> (\<exists>x. m = Inr x \<and> k x = Inr y)"
  by (cases m) auto
lemma and_then_eq_Inl: "and_then m k = Inl e \<longleftrightarrow> m = Inl e \<or> (\<exists>x. m = Inr x \<and> k x = Inl e)"
  by (cases m) auto
lemma backend_Inl [simp]: "backend (Inl x) = Inl (BackendError x)" by (simp add: backend_def)
lemma backend_Inr [simp]: "backend (Inr v) = Inr v" by (simp add: backend_def)
lemma backend_eq_Inr: "backend r = Inr v \<longleftrightarrow> r = Inr v" by (cases r) auto
lemma py_mod_eq_Inr: "py_mod a b = Inr m \<longleftrightarrow> b \<noteq> 0 \<and> m = a mod b" by (auto simp: py_mod_def)
lemma py_mod_eq_Inl: "py_mod a b = Inl e \<longleftrightarrow> b = 0 \<and> e = ZeroDivisionError" by (auto simp: py_mod_def)

lemma shot_step_fields:
  assumes "shot_step cfg cv f st = Inr st'"
  shows "processed_frames st' = processed_frames st"
    and "absolute_frame_index st' = absolute_frame_index st"
    and "text_samples st' = text_samples st"
    and "text_positives st' = text_positives st"
    and "motion_samples st' = motion_samples st"
    and "motion_magnitude_sum st' = motion_magnitude_sum st"
    and "person_total st' = person_total st"
    and "object_total st' = object_total st"
    and "prev_gray st' = prev_gray st"
    and "prev_hist st' \<noteq> None"
    and "hard_cuts st \<le> hard_cuts st'"
    and "hard_cuts st' \<le> hard_cuts st + 1"
    and "prev_hist st = None \<Longrightarrow> hard_cuts st' = hard_cuts st"
  using assms
  by (auto simp: shot_step_def and_then_def backend_def split: sum.splits option.splits if_splits)

lemma motion_step_fields:
  assumes "motion_step cfg cv f st = Inr st'"
  shows "processed_frames st' = processed_frames st"
    and "absolute_frame_index st' = absolute_frame_index st"
    and "text_samples st' = text_samples st"
    and "text_positives st' = text_positives st"
    and "hard_cuts st' = hard_cuts st"
    and "person_total st' = person_total st"
    and "object_total st' = object_total st"
    and "prev_hist st' = prev_hist st"
    and "\<exists>g. cvtColor_BGR2GRAY cv f = Inr g \<and> prev_gray st' = Some g"
    and "prev_gray st = None \<Longrightarrow> motion_samples st' = motion_samples st \<and>
           motion_magnitude_sum st' = motion_magnitude_sum st"
    and "\<And>pg. prev_gray st = Some pg \<Longrightarrow>
           \<exists>m. avg_optical_flow_magnitude cv (farneback cfg) pg (the (prev_gray st')) = Inr m \<and>
               motion_samples st' = motion_samples st + 1 \<and>
               motion_magnitude_sum st' = motion_magnitude_sum st + m"
  using assms
  by (auto simp: motion_step_def and_then_def backend_def split: sum.splits option.splits if_splits)

lemma text_step_fields:
  assumes "text_step cfg cv f st = Inr st'"
  shows "processed_frames st' = processed_frames st"
    and "absolute_frame_index st' = absolute_frame_index st"
    and "hard_cuts st' = hard_cuts st"
    and "motion_samples st' = motion_samples st"
    and "motion_magnitude_sum st' = motion_magnitude_sum st"
    and "person_total st' = person_total st"
    and "object_total st' = object_total st"
    and "prev_hist st' = prev_hist st"
    and "prev_gray st' = prev_gray st"
    and "text_sample_stride cfg \<noteq> 0"
    and "text_samples st' =
           (if processed_frames st mod text_sample_stride cfg = 0
            then text_samples st + 1 else text_samples st)"
    and "text_positives st \<le> text_positives st'"
    and "text_positives st' - text_positives st \<le> text_samples st' - text_samples st"
  using assms
  by (auto simp: text_step_def and_then_def backend_def py_mod_def Let_def
           split: sum.splits option.splits if_splits)

lemma count_labels_sum:
  "fst (count_labels nm cs (p, q)) + snd (count_labels nm cs (p, q)) = p + q + int (length cs)"
  by (induction cs arbitrary: p q) (auto simp: Let_def)

lemma count_labels_fst:
  "fst (count_labels nm cs (p, q)) =
     p + int (length (filter (\<lambda>c. nm c = Some ''person'') cs))"
  by (induction cs arbitrary: p q) (auto simp: Let_def split: option.splits)

lemma count_labels_snd:
  "snd (count_labels nm cs (p, q)) =
     q + int (length (filter (\<lambda>c. nm c \<noteq> Some ''person'') cs))"
  by (induction cs arbitrary: p q) (auto simp: Let_def split: option.splits)

lemma count_result_nonneg: "0 \<le> fst (count_result det r) \<and> 0 \<le> snd (count_result det r)"
  by (simp add: count_result_def Let_def count_labels_fst count_labels_snd
           split: option.splits)

lemma count_result_pair_nonneg: "count_result det r = (p, q) \<Longrightarrow> 0 \<le> p \<and> 0 \<le> q"
  using count_result_nonneg[of det r] by simp

lemma detection_step_fields:
  assumes "detection_step cfg det f st = Inr st'"
  shows "processed_frames st' = processed_frames st"
    and "absolute_frame_index st' = absolute_frame_index st"
    and "hard_cuts st' = hard_cuts st"
    and "motion_samples st' = motion_samples st"
    and "motion_magnitude_sum st' = motion_magnitude_sum st"
    and "text_samples st' = text_samples st"
    and "text_positives st' = text_positives st"
    and "prev_hist st' = prev_hist st"
    and "prev_gray st' = prev_gray st"
    and "yolo_frame_stride cfg \<noteq> 0"
    and "processed_frames st mod yolo_frame_stride cfg \<noteq> 0 \<Longrightarrow>
           person_total st' = person_total st \<and> object_total st' = object_total st"
    and "person_total st \<le> person_total st'"
    and "object_total st \<le> object_total st'"
  using assms
  by (auto simp: detection_step_def count_people_vs_objects_def and_then_def backend_def
                 py_mod_def Let_def
           split: sum.splits option.splits if_splits prod.splits
           dest: count_result_pair_nonneg)

lemma process_frame_Inr:
  assumes "process_frame self cv st f = Inr st'"
  obtains fs s1 s2 s3 where
    "resize_to_width cv f (resize_width (config self)) = Inr fs"
    "shot_step (config self) cv fs (st\<lparr>processed_frames := processed_frames st + 1\<rparr>) = Inr s1"
    "motion_step (config self) cv fs s1 = Inr s2"
    "text_step (config self) cv fs s2 = Inr s3"
    "detection_step (config self) (detector self) fs s3 = Inr st'"
  using assms
  by (auto simp: process_frame_def Let_def and_then_eq_Inr backend_eq_Inr)

lemma shot_step_index:
  "shot_step cfg cv f (st\<lparr>absolute_frame_index := j\<rparr>) =
     and_then (shot_step cfg cv f st) (\<lambda>s. Inr (s\<lparr>absolute_frame_index := j\<rparr>))"
  by (simp add: shot_step_def and_then_def backend_def split: sum.splits option.splits)

lemma motion_step_index:
  "motion_step cfg cv f (st\<lparr>absolute_frame_index := j\<rparr>) =
     and_then (motion_step cfg cv f st) (\<lambda>s. Inr (s\<lparr>absolute_frame_index := j\<rparr>))"
  by (simp add: motion_step_def and_then_def backend_def split: sum.splits option.splits)

lemma text_step_index:
  "text_step cfg cv f (st\<lparr>absolute_frame_index := j\<rparr>) =
     and_then (text_step cfg cv f st) (\<lambda>s. Inr (s\<lparr>absolute_frame_index := j\<rparr>))"
  by (simp add: text_step_def and_then_def backend_def py_mod_def Let_def split: sum.splits)

lemma detection_step_index:
  "detection_step cfg det f (st\<lparr>absolute_frame_index := j\<rparr>) =
     and_then (detection_step cfg det f st) (\<lambda>s. Inr (s\<lparr>absolute_frame_index := j\<rparr>))"
  by (simp add: detection_step_def and_then_def py_mod_def split: sum.splits prod.splits)

lemma and_then_assoc:
  "and_then (and_then m f) g = and_then m (\<lambda>x. and_then (f x) g)"
  by (cases m) simp_all

lemma process_frame_index:
  "process_frame self cv (st\<lparr>absolute_frame_index := j\<rparr>) f =
     and_then (process_frame self cv st f) (\<lambda>s. Inr (s\<lparr>absolute_frame_index := j\<rparr>))"
proof -
  have swap: "st\<lparr>absolute_frame_index := j, processed_frames := p\<rparr> =
              st\<lparr>processed_frames := p, absolute_frame_index := j\<rparr>" for p
    by simp
  have sel: "processed_frames (st\<lparr>absolute_frame_index := j\<rparr>) = processed_frames st"
    by simp
  show ?thesis
    unfolding process_frame_def Let_def
    by (simp only: sel swap shot_step_index motion_step_index text_step_index
          detection_step_index and_then_assoc and_then_Inr)
qed

lemma run_accepted_index:
  "run_accepted self cv fs (st\<lparr>absolute_frame_index := j\<rparr>) =
     and_then (run_accepted self cv fs st) (\<lambda>s. Inr (s\<lparr>absolute_frame_index := j\<rparr>))"
proof (induction fs arbitrary: st)
  case Nil
  show ?case by simp
next
  case (Cons f fs)
  show ?case
    by (cases "process_frame self cv st f") (simp_all add: process_frame_index Cons.IH)
qed


lemma loop_eq_run_accepted:
  assumes "frame_stride (config self) \<noteq> 0"
  shows "loop self cv (map Inr fs) st =
     and_then (run_accepted self cv
                 (accepted_from (frame_stride (config self)) (absolute_frame_index st + 1) fs) st)
       (\<lambda>s. Inr (s\<lparr>absolute_frame_index := absolute_frame_index st + int (length fs)\<rparr>))"
proof (induction fs arbitrary: st)
  case Nil
  show ?case by simp
next
  case (Cons f fs)
  let ?st1 = "st\<lparr>absolute_frame_index := absolute_frame_index st + 1\<rparr>"
  let ?s = "frame_stride (config self)"
  show ?case
  proof (cases "(absolute_frame_index st + 1) mod ?s = 0")
    case False
    have "loop self cv (map Inr (f # fs)) st = loop self cv (map Inr fs) ?st1"
      using False assms by (simp add: py_mod_def Let_def)
    also have "\<dots> = and_then
        (run_accepted self cv (accepted_from ?s (absolute_frame_index st + 2) fs) ?st1)
        (\<lambda>s. Inr (s\<lparr>absolute_frame_index := absolute_frame_index st + 1 + int (length fs)\<rparr>))"
      by (subst Cons.IH) (simp add: algebra_simps)
    also have "\<dots> = and_then
        (run_accepted self cv (accepted_from ?s (absolute_frame_index st + 2) fs) st)
        (\<lambda>s. Inr (s\<lparr>absolute_frame_index := absolute_frame_index st + 1 + int (length fs)\<rparr>))"
      by (simp add: run_accepted_index and_then_assoc)
    finally show ?thesis using False by (simp add: algebra_simps)
  next
    case True
    have "loop self cv (map Inr (f # fs)) st =
            and_then (process_frame self cv ?st1 f) (\<lambda>s. loop self cv (map Inr fs) s)"
      using True assms by (simp add: py_mod_def Let_def)
    also have "\<dots> = and_then (process_frame self cv st f)
           (\<lambda>s. loop self cv (map Inr fs) (s\<lparr>absolute_frame_index := absolute_frame_index st + 1\<rparr>))"
      by (simp add: process_frame_index and_then_assoc)
    also have "\<dots> = and_then (process_frame self cv st f)
           (\<lambda>s. and_then
              (run_accepted self cv (accepted_from ?s (absolute_frame_index st + 2) fs) s)
              (\<lambda>s. Inr (s\<lparr>absolute_frame_index := absolute_frame_index st + 1 + int (length fs)\<rparr>)))"
      by (subst Cons.IH) (simp add: run_accepted_index and_then_assoc algebra_simps)
    finally show ?thesis using True by (simp add: and_then_assoc algebra_simps)
  qed
qed

lemma accepted_from_eq:
  "accepted_from s i fs =
     map (\<lambda>k. fs ! k) (filter (\<lambda>k. (i + int k) mod s = 0) [0..<length fs])"
proof (induction fs arbitrary: i)
  case Nil
  show ?case by simp
next
  case (Cons f fs)
  have upt: "[0..<length (f # fs)] = 0 # map Suc [0..<length fs]"
    by (simp add: upt_conv_Cons map_Suc_upt del: upt_Suc)
  have tl: "map (\<lambda>k. (f # fs) ! k) (filter (\<lambda>k. (i + int k) mod s = 0) (map Suc [0..<length fs]))
            = map (\<lambda>k. fs ! k) (filter (\<lambda>k. (i + 1 + int k) mod s = 0) [0..<length fs])"
    by (simp add: filter_map o_def algebra_simps)
  show ?case
    unfolding upt by (simp add: Cons.IH tl del: upt_Suc) 
qed

lemma accepted_from_0: "accepted_from s 0 fs = accepted_frames s fs"
  by (simp add: accepted_from_eq accepted_frames_def)

lemma neg_div_ceiling:
  fixes a s :: int
  assumes "0 < s"
  shows "- ((- a) div s) = (if a mod s = 0 then a div s else a div s + 1)"
  using assms by (simp add: zdiv_zminus1_eq_if)

lemma succ_div_mod:
  fixes i s :: int
  assumes "0 < s"
  shows "(if (i + 1) mod s = 0 then (i + 1) div s else (i + 1) div s + 1) = i div s + 1"
proof -
  let ?q = "i div s" and ?r = "i mod s"
  have r: "0 \<le> ?r" "?r < s" using assms by simp_all
  have i: "i = s * ?q + ?r" by simp
  show ?thesis
  proof (cases "?r + 1 = s")
    case True
    have "s * ?q + ?r = i" by simp
    then have "i + 1 = s * ?q + s" using True by linarith
    then have eq: "i + 1 = s * (?q + 1) + 0" by (simp add: algebra_simps)
    have "(i + 1) div s = ?q + 1"
      by (rule int_div_pos_eq[OF eq]) (use assms in simp_all)
    moreover have "(i + 1) mod s = 0"
      by (rule int_mod_pos_eq[OF eq]) (use assms in simp_all)
    ultimately show ?thesis by simp
  next
    case False
    then have lt: "?r + 1 < s" using r by simp
    have "s * ?q + ?r = i" by simp
    then have eq: "i + 1 = s * ?q + (?r + 1)" by linarith
    have "(i + 1) div s = ?q"
      by (rule int_div_pos_eq[OF eq]) (use r lt in simp_all)
    moreover have "(i + 1) mod s = ?r + 1"
      by (rule int_mod_pos_eq[OF eq]) (use r lt in simp_all)
    ultimately show ?thesis using r by simp
  qed
qed

lemma ceiling_step:
  fixes i s :: int
  assumes "0 < s"
  shows "- ((- (i + 1)) div s) = - ((- i) div s) + (if i mod s = 0 then 1 else 0)"
proof -
  have "- ((- (i + 1)) div s) = i div s + 1"
    using neg_div_ceiling[OF assms, of "i + 1"] succ_div_mod[OF assms, of i] by simp
  moreover have "- ((- i) div s) + (if i mod s = 0 then 1 else 0) = i div s + 1"
    using neg_div_ceiling[OF assms, of i] by simp
  ultimately show ?thesis by simp
qed

lemma length_accepted_from:
  assumes "0 < s"
  shows "int (length (accepted_from s i fs)) = - ((- (i + int (length fs))) div s) - (- ((- i) div s))"
proof (induction fs arbitrary: i)
  case Nil
  show ?case by simp
next
  case (Cons f fs)
  show ?case
    using ceiling_step[OF assms, of i] Cons.IH[of "i + 1"]
    by (simp add: algebra_simps)
qed

lemma length_accepted_frames:
  assumes "0 < s"
  shows "int (length (accepted_frames s fs)) = \<lceil>real (length fs) / real_of_int s\<rceil>"
proof -
  have "\<lceil>real (length fs) / real_of_int s\<rceil> = \<lceil>real_of_int (int (length fs)) / real_of_int s\<rceil>"
    by simp
  also have "\<dots> = - ((- int (length fs)) div s)"
    by (rule ceiling_divide_eq_div)
  finally show ?thesis
    using length_accepted_from[OF assms, of 0 fs] by (simp add: accepted_from_0)
qed

lemma process_frame_effect:
  assumes "process_frame self cv st f = Inr st'"
  shows "processed_frames st' = processed_frames st + 1"
    and "absolute_frame_index st' = absolute_frame_index st"
    and "prev_hist st' \<noteq> None"
    and "prev_gray st' \<noteq> None"
    and "hard_cuts st \<le> hard_cuts st'"
    and "hard_cuts st' \<le> hard_cuts st + 1"
    and "prev_hist st = None \<Longrightarrow> hard_cuts st' = hard_cuts st"
    and "prev_gray st = None \<Longrightarrow> motion_samples st' = motion_samples st \<and>
           motion_magnitude_sum st' = motion_magnitude_sum st"
    and "prev_gray st \<noteq> None \<Longrightarrow> motion_samples st' = motion_samples st + 1"
    and "text_sample_stride (config self) \<noteq> 0"
    and "yolo_frame_stride (config self) \<noteq> 0"
    and "text_samples st' =
           (if (processed_frames st + 1) mod text_sample_stride (config self) = 0
            then text_samples st + 1 else text_samples st)"
    and "text_positives st \<le> text_positives st'"
    and "text_positives st' - text_positives st \<le> text_samples st' - text_samples st"
    and "(processed_frames st + 1) mod yolo_frame_stride (config self) \<noteq> 0 \<Longrightarrow>
           person_total st' = person_total st \<and> object_total st' = object_total st"
    and "person_total st \<le> person_total st'"
    and "object_total st \<le> object_total st'"
proof -
  obtain fs s1 s2 s3 where
    sh: "shot_step (config self) cv fs (st\<lparr>processed_frames := processed_frames st + 1\<rparr>) = Inr s1"
    and mo: "motion_step (config self) cv fs s1 = Inr s2"
    and te: "text_step (config self) cv fs s2 = Inr s3"
    and de: "detection_step (config self) (detector self) fs s3 = Inr st'"
    using assms by (rule process_frame_Inr)
  note S = shot_step_fields[OF sh] and M = motion_step_fields[OF mo]
    and T = text_step_fields[OF te] and D = detection_step_fields[OF de]
  show "processed_frames st' = processed_frames st + 1"
    using S(1) M(1) T(1) D(1) by simp
  show "absolute_frame_index st' = absolute_frame_index st"
    using S(2) M(2) T(2) D(2) by simp
  show "prev_hist st' \<noteq> None"
    using S(10) M(8) T(8) D(8) by simp
  show "prev_gray st' \<noteq> None"
    using M(9) T(9) D(9) by auto
  show "hard_cuts st \<le> hard_cuts st'"
    using S(11) M(5) T(3) D(3) by simp
  show "hard_cuts st' \<le> hard_cuts st + 1"
    using S(12) M(5) T(3) D(3) by simp
  show "hard_cuts st' = hard_cuts st" if "prev_hist st = None"
    using S(13) that M(5) T(3) D(3) by simp
  show "motion_samples st' = motion_samples st \<and>
        motion_magnitude_sum st' = motion_magnitude_sum st" if "prev_gray st = None"
    using that S(5,6,9) M(10) T(4,5) D(4,5) by simp
  show "motion_samples st' = motion_samples st + 1" if "prev_gray st \<noteq> None"
  proof -
    from that S(9) obtain pg where "prev_gray s1 = Some pg" by auto
    from M(11)[OF this] show ?thesis using S(5) T(4) D(4) by auto
  qed
  show "text_sample_stride (config self) \<noteq> 0" by (rule T(10))
  show "yolo_frame_stride (config self) \<noteq> 0" by (rule D(10))
  show "text_samples st' =
           (if (processed_frames st + 1) mod text_sample_stride (config self) = 0
            then text_samples st + 1 else text_samples st)"
    using S(1,3) M(1,3) T(11) D(6) by simp
  show "text_positives st \<le> text_positives st'"
    using S(4) M(4) T(12) D(7) by simp
  show "text_positives st' - text_positives st \<le> text_samples st' - text_samples st"
    using S(3,4) M(3,4) T(13) D(6,7) by simp
  show "person_total st' = person_total st \<and> object_total st' = object_total st"
    if "(processed_frames st + 1) mod yolo_frame_stride (config self) \<noteq> 0"
    using that S(1,7,8) M(1,6,7) T(1,6,7) D(11) by simp
  show "person_total st \<le> person_total st'"
    using S(7) M(6) T(6) D(12) by simp
  show "object_total st \<le> object_total st'"
    using S(8) M(7) T(7) D(13) by simp
qed

lemma loop_invariant:
  assumes "loop self cv xs st = Inr st'"
    and "P st"
    and skip: "\<And>s. P s \<Longrightarrow> P (s\<lparr>absolute_frame_index := absolute_frame_index s + 1\<rparr>)"
    and step: "\<And>s f s'. P s \<Longrightarrow> process_frame self cv s f = Inr s' \<Longrightarrow> P s'"
  shows "P st'"
  using assms(1,2)
proof (induction xs arbitrary: st)
  case Nil
  then show ?case by simp
next
  case (Cons x xs)
  show ?case
  proof (cases x)
    case (Inl e)
    with Cons.prems show ?thesis by simp
  next
    case (Inr f)
    let ?st1 = "st\<lparr>absolute_frame_index := absolute_frame_index st + 1\<rparr>"
    have P1: "P ?st1" using Cons.prems(2) by (rule skip)
    show ?thesis
    proof (cases "(absolute_frame_index st + 1) mod frame_stride (config self) = 0")
      case False
      with Cons.prems(1) Inr have "loop self cv xs ?st1 = Inr st'"
        by (simp add: Let_def and_then_eq_Inr py_mod_eq_Inr)
      then show ?thesis using P1 by (rule Cons.IH)
    next
      case True
      with Cons.prems(1) Inr obtain s where
        "process_frame self cv ?st1 f = Inr s" "loop self cv xs s = Inr st'"
        by (auto simp: Let_def and_then_eq_Inr py_mod_eq_Inr)
      then show ?thesis using step[OF P1] Cons.IH by blast
    qed
  qed
qed

subsection \<open>Counting people and other objects\<close>

text \<open>Claim C7. For every list of detections the detector returns on a frame, each
  detection is counted once, as a person when its label is \<open>person\<close> and as an object
  otherwise, a class id the names do not list having the empty label and counting as an
  object; so the two counts add up to the number of detections. A result with no
  \<open>boxes\<close> attribute, with \<open>boxes\<close> equal to None or with no class array counts as
  \<open>(0, 0)\<close>, and whenever the detector returns, the count is returned and nothing is
  raised.\<close>

theorem count_people_vs_objects_partition:
  "(\<forall>b cs. boxes result = Some (Some b) \<and> cls b = Some cs \<longrightarrow>
      count_result det result =
        (int (length (filter (\<lambda>c. getattr_names result det c = Some ''person'') cs)),
         int (length (filter (\<lambda>c. getattr_names result det c \<noteq> Some ''person'') cs)))
      \<and> fst (count_result det result) + snd (count_result det result) = int (length cs))
   \<and> (boxes result = None \<or> boxes result = Some None
        \<or> (\<exists>b. boxes result = Some (Some b) \<and> cls b = None)
       \<longrightarrow> count_result det result = (0, 0))
   \<and> (\<forall>r. predict det frame_bgr = Inr r \<longrightarrow>
        count_people_vs_objects det frame_bgr = Inr (count_result det r))"
proof (intro conjI allI impI)
  fix b cs
  assume h: "boxes result = Some (Some b) \<and> cls b = Some cs"
  let ?nm = "getattr_names result det"
  have eq: "count_result det result = count_labels ?nm cs (0, 0)"
    using h by (simp add: count_result_def Let_def)
  show "count_result det result =
        (int (length (filter (\<lambda>c. ?nm c = Some ''person'') cs)),
         int (length (filter (\<lambda>c. ?nm c \<noteq> Some ''person'') cs)))"
    unfolding eq
    using count_labels_fst[of ?nm cs 0 0] count_labels_snd[of ?nm cs 0 0]
    by (simp add: prod_eq_iff)
  show "fst (count_result det result) + snd (count_result det result) = int (length cs)"
    unfolding eq using count_labels_sum[of ?nm cs 0 0] by simp
next
  assume "boxes result = None \<or> boxes result = Some None
        \<or> (\<exists>b. boxes result = Some (Some b) \<and> cls b = None)"
  then show "count_result det result = (0, 0)"
    by (auto simp: count_result_def Let_def)
next
  fix r
  assume "predict det frame_bgr = Inr r"
  then show "count_people_vs_objects det frame_bgr = Inr (count_result det r)"
    by (simp add: count_people_vs_objects_def)
qed

theorem count_people_vs_objects_partition_witness:
  "count_result demo_detector demo_result = (1, 2)
   \<and> count_people_vs_objects demo_detector (5::nat) = Inr (1, 2)
   \<and> count_result demo_detector \<lparr>result_names = None, boxes = Some None\<rparr> = (0, 0)"
proof -
  have b: "boxes demo_result = Some (Some \<lparr>cls = Some [0, 1, 7]\<rparr>)
           \<and> cls \<lparr>cls = Some [0, 1, 7]\<rparr> = Some [0, 1, 7]"
    by (simp add: demo_result_def)
  have nm: "getattr_names demo_result demo_detector = [0 \<mapsto> ''person'', 1 \<mapsto> ''car'']"
    by (simp add: getattr_names_def dict_or_empty_def demo_result_def demo_detector_def)
  have p: "predict demo_detector (5::nat) = Inr demo_result"
    by (simp add: demo_detector_def)
  note T = count_people_vs_objects_partition[of demo_result demo_detector 5]
  have one: "count_result demo_detector demo_result = (1, 2)"
    using T b by (simp add: nm)
  have two: "count_people_vs_objects demo_detector (5::nat) = Inr (count_result demo_detector demo_result)"
    using T p by blast
  have three: "count_result demo_detector \<lparr>result_names = None, boxes = Some None\<rparr> = (0, 0)"
    using count_people_vs_objects_partition
            [of "\<lparr>result_names = None, boxes = Some None\<rparr>" demo_detector "5::nat"]
    by simp
  show ?thesis using one two three by simp
qed

end
